theory Spec2Isabelle
  imports Main "HOL-Library.Sublist"
begin

section \<open>The framework the tutorial calls into\<close>

text \<open>
  The file \<^verbatim>\<open>parallelism_tutorial.py\<close> defines one function, \<^verbatim>\<open>data_parallel\<close>, and two
  classes, \<^verbatim>\<open>DataParallelModel\<close> and \<^verbatim>\<open>DistributedModel\<close>. Everything they do is a call
  into \<^verbatim>\<open>torch.nn\<close>: calling a module on a tensor, \<^verbatim>\<open>nn.parallel.replicate\<close>,
  \<^verbatim>\<open>nn.parallel.scatter\<close>, \<^verbatim>\<open>nn.parallel.parallel_apply\<close>, \<^verbatim>\<open>nn.parallel.gather\<close>,
  \<^verbatim>\<open>Tensor.cuda\<close>, \<^verbatim>\<open>Module.cuda\<close>, the base-class constructor \<^verbatim>\<open>nn.Module.__init__\<close> with
  keyword arguments, and the lookup of a submodule by name (\<^verbatim>\<open>nn.Module.__getattr__\<close>, which
  raises for a name the module does not have). None of these is part of the file, so they
  are parameters of the model:
  a record of operations over a type \<open>'m\<close> of modules, a type \<open>'x\<close> of tensors, a type
  \<open>'e\<close> of exceptions and a type \<open>'w\<close> of framework state (device memory, module
  parameters, ...). An operation reads the state and returns the state it leaves behind,
  together with either the exception it raised (\<open>Inl\<close>) or its value (\<open>Inr\<close>).
  Device identifiers are Python integers. \<open>module_init\<close> takes the keyword arguments of the
  constructor call, in the order they are written, and returns the submodules the
  initialised object has, by name; \<open>attribute_error\<close> is the exception raised by the lookup
  of a name that is not among them.
\<close>

type_synonym ('e, 'w, 'a) prim = "'w \<Rightarrow> ('e + 'a) \<times> 'w"

record ('m, 'x, 'e, 'w) framework =
  nn_call :: "'m \<Rightarrow> 'x \<Rightarrow> ('e, 'w, 'x) prim"
  nn_replicate :: "'m \<Rightarrow> int list \<Rightarrow> ('e, 'w, 'm list) prim"
  nn_scatter :: "'x \<Rightarrow> int list \<Rightarrow> ('e, 'w, 'x list) prim"
  nn_parallel_apply :: "'m list \<Rightarrow> 'x list \<Rightarrow> ('e, 'w, 'x list) prim"
  nn_gather :: "'x list \<Rightarrow> int \<Rightarrow> ('e, 'w, 'x) prim"
  tensor_cuda :: "'x \<Rightarrow> int \<Rightarrow> ('e, 'w, 'x) prim"
  module_cuda :: "'m \<Rightarrow> int \<Rightarrow> ('e, 'w, 'm) prim"
  module_init :: "(string \<times> 'm) list \<Rightarrow> ('e, 'w, (string \<times> 'm) list) prim"
  attribute_error :: "string \<Rightarrow> 'e"

text \<open>
  A run of the tutorial's code records every call it makes into the framework, with the
  arguments it passes, in the order of the calls.
\<close>

datatype ('m, 'x) event =
    Call 'm 'x
  | Replicate 'm "int list"
  | Scatter 'x "int list"
  | ParallelApply "'m list" "'x list"
  | Gather "'x list" int
  | TensorCuda 'x int
  | ModuleCuda 'm int
  | ModuleInit "(string \<times> 'm) list"

type_synonym ('m, 'x, 'e, 'w, 'a) exec = "'w \<Rightarrow> ('m, 'x) event list \<times> ('e + 'a) \<times> 'w"

text \<open>One call into the framework: the event, and what the framework answers.\<close>

definition invoke :: "('m, 'x) event \<Rightarrow> ('e, 'w, 'a) prim \<Rightarrow> ('m, 'x, 'e, 'w, 'a) exec" where
  "invoke ev p w = ([ev], p w)"

text \<open>
  Two statements in sequence. The source has no \<^verbatim>\<open>try\<close>: an exception of the first
  statement ends the run, and the second statement is not executed.
\<close>

definition and_then ::
  "('m, 'x, 'e, 'w, 'a) exec \<Rightarrow> ('a \<Rightarrow> ('m, 'x, 'e, 'w, 'b) exec) \<Rightarrow> ('m, 'x, 'e, 'w, 'b) exec" where
  "and_then f g w =
     (case f w of
        (t, Inl e, w') \<Rightarrow> (t, Inl e, w')
      | (t, Inr a, w') \<Rightarrow> (case g a w' of (t', r, w'') \<Rightarrow> (t @ t', r, w'')))"

definition return_value :: "'a \<Rightarrow> ('m, 'x, 'e, 'w, 'a) exec" where
  "return_value a w = ([], Inr a, w)"

definition call_module :: "('m, 'x, 'e, 'w) framework \<Rightarrow> 'm \<Rightarrow> 'x \<Rightarrow> ('m, 'x, 'e, 'w, 'x) exec" where
  "call_module P m x = invoke (Call m x) (nn_call P m x)"

definition replicate_call ::
  "('m, 'x, 'e, 'w) framework \<Rightarrow> 'm \<Rightarrow> int list \<Rightarrow> ('m, 'x, 'e, 'w, 'm list) exec" where
  "replicate_call P m ds = invoke (Replicate m ds) (nn_replicate P m ds)"

definition scatter_call ::
  "('m, 'x, 'e, 'w) framework \<Rightarrow> 'x \<Rightarrow> int list \<Rightarrow> ('m, 'x, 'e, 'w, 'x list) exec" where
  "scatter_call P x ds = invoke (Scatter x ds) (nn_scatter P x ds)"

definition parallel_apply_call ::
  "('m, 'x, 'e, 'w) framework \<Rightarrow> 'm list \<Rightarrow> 'x list \<Rightarrow> ('m, 'x, 'e, 'w, 'x list) exec" where
  "parallel_apply_call P ms xs = invoke (ParallelApply ms xs) (nn_parallel_apply P ms xs)"

definition gather_call ::
  "('m, 'x, 'e, 'w) framework \<Rightarrow> 'x list \<Rightarrow> int \<Rightarrow> ('m, 'x, 'e, 'w, 'x) exec" where
  "gather_call P ys d = invoke (Gather ys d) (nn_gather P ys d)"

definition cuda_call ::
  "('m, 'x, 'e, 'w) framework \<Rightarrow> 'x \<Rightarrow> int \<Rightarrow> ('m, 'x, 'e, 'w, 'x) exec" where
  "cuda_call P x d = invoke (TensorCuda x d) (tensor_cuda P x d)"

definition module_cuda_call ::
  "('m, 'x, 'e, 'w) framework \<Rightarrow> 'm \<Rightarrow> int \<Rightarrow> ('m, 'x, 'e, 'w, 'm) exec" where
  "module_cuda_call P m d = invoke (ModuleCuda m d) (module_cuda P m d)"

definition module_init_call ::
  "('m, 'x, 'e, 'w) framework \<Rightarrow> (string \<times> 'm) list \<Rightarrow>
   ('m, 'x, 'e, 'w, (string \<times> 'm) list) exec" where
  "module_init_call P kwargs = invoke (ModuleInit kwargs) (module_init P kwargs)"

text \<open>
  Reading the attribute \<open>name\<close> of an object whose submodules are \<open>self\<close>: the submodule
  of that name, or the framework's exception when there is none.
\<close>

definition get_attribute ::
  "('m, 'x, 'e, 'w) framework \<Rightarrow> (string \<times> 'm) list \<Rightarrow> string \<Rightarrow> ('m, 'x, 'e, 'w, 'm) exec" where
  "get_attribute P self name w =
     (case map_of self name of
        None \<Rightarrow> ([], Inl (attribute_error P name), w)
      | Some m \<Rightarrow> ([], Inr m, w))"

section \<open>\<^verbatim>\<open>data_parallel\<close>\<close>

text \<open>
  \<^verbatim>\<open>
  def data_parallel(module, input, device_ids, output_device=None):
      if not device_ids:
          return module(input)

      if output_device is None:
          output_device = device_ids[0]

      replicas = nn.parallel.replicate(module, device_ids)
      inputs = nn.parallel.scatter(input, device_ids)
      replicas = replicas[:len(inputs)]
      outputs = nn.parallel.parallel_apply(replicas, inputs)
      return nn.parallel.gather(outputs, output_device)
  \<close>
  The device list is a Python list, which is falsy exactly when it is empty. The optional
  \<^verbatim>\<open>output_device\<close> is an \<open>int option\<close>. \<^verbatim>\<open>device_ids[0]\<close> is read only on a non-empty
  list, and the slice \<^verbatim>\<open>replicas[:len(inputs)]\<close> is \<open>take\<close>.
\<close>

definition data_parallel ::
  "('m, 'x, 'e, 'w) framework \<Rightarrow> 'm \<Rightarrow> 'x \<Rightarrow> int list \<Rightarrow> int option \<Rightarrow> ('m, 'x, 'e, 'w, 'x) exec" where
  "data_parallel P module input device_ids output_device =
     (if device_ids = [] then call_module P module input
      else
        let output_device = (case output_device of None \<Rightarrow> device_ids ! 0 | Some d \<Rightarrow> d) in
        and_then (replicate_call P module device_ids) (\<lambda>replicas.
        and_then (scatter_call P input device_ids) (\<lambda>inputs.
        let replicas = take (length inputs) replicas in
        and_then (parallel_apply_call P replicas inputs) (\<lambda>outputs.
        gather_call P outputs output_device))))"

section \<open>The two model classes\<close>

text \<open>
  The layers the two classes build, as the constructor expressions of the source:
  \<^verbatim>\<open>nn.Linear(i, o)\<close>, \<^verbatim>\<open>nn.Embedding(n, d)\<close> and \<^verbatim>\<open>nn.DataParallel(m)\<close>. \<open>Cuda m d\<close> is the
  layer \<open>m\<close> on GPU \<open>d\<close>: the value a framework may return for a replica on device \<open>d\<close>
  or for \<^verbatim>\<open>m.cuda(d)\<close>.
\<close>

datatype layer =
    Linear int int
  | Embedding int int
  | DataParallel layer
  | Cuda layer int

fun is_data_parallel :: "layer \<Rightarrow> bool" where
  "is_data_parallel (DataParallel m) = True"
| "is_data_parallel m = False"

fun is_linear :: "layer \<Rightarrow> bool" where
  "is_linear (Linear i out) = True"
| "is_linear m = False"

text \<open>
  \<^verbatim>\<open>
  class DataParallelModel(nn.Module):
      def __init__(self):
          super().__init__()
          self.block1 = nn.Linear(10, 20)
          self.block2 = nn.Linear(20, 20)
          self.block2 = nn.DataParallel(self.block2)
          self.block3 = nn.Linear(20, 20)

      def forward(self, x):
          x = self.block1(x)
          x = self.block2(x)
          x = self.block3(x)
          return x
  \<close>
\<close>

record DataParallelModel =
  block1 :: layer
  block2 :: layer
  block3 :: layer

definition DataParallelModel_init :: DataParallelModel where
  "DataParallelModel_init =
     (let block1 = Linear 10 20;
          block2 = Linear 20 20;
          block2 = DataParallel block2;
          block3 = Linear 20 20
      in \<lparr>block1 = block1, block2 = block2, block3 = block3\<rparr>)"

definition DataParallelModel_forward ::
  "(layer, 'x, 'e, 'w) framework \<Rightarrow> DataParallelModel \<Rightarrow> 'x \<Rightarrow> (layer, 'x, 'e, 'w, 'x) exec" where
  "DataParallelModel_forward P self x =
     and_then (call_module P (block1 self) x) (\<lambda>x.
     and_then (call_module P (block2 self) x) (\<lambda>x.
     and_then (call_module P (block3 self) x) (\<lambda>x.
     return_value x)))"

text \<open>
  \<^verbatim>\<open>
  class DistributedModel(nn.Module):
      def __init__(self):
          super().__init__(
              embedding=nn.Embedding(1000, 10),
              rnn=nn.Linear(10, 10).cuda(0),
          )

      def forward(self, x):
          x = self.embedding(x)
          x = x.cuda(0)
          x = self.rnn(x)
          return x
  \<close>
  Unlike \<^verbatim>\<open>DataParallelModel.__init__\<close>, this constructor assigns no attribute. Its one
  statement is the call of the base-class constructor: the two keyword arguments are
  evaluated in the order they are written (the second one calls \<^verbatim>\<open>.cuda(0)\<close> on the new
  linear layer), then \<^verbatim>\<open>nn.Module.__init__\<close> is called with them. The object has the
  submodules that call leaves, and no others. \<^verbatim>\<open>forward\<close> reads \<^verbatim>\<open>self.embedding\<close> and
  \<^verbatim>\<open>self.rnn\<close> from the object, each at the statement that calls it.
\<close>

definition DistributedModel_init ::
  "(layer, 'x, 'e, 'w) framework \<Rightarrow> (layer, 'x, 'e, 'w, (string \<times> layer) list) exec" where
  "DistributedModel_init P =
     (let embedding = Embedding 1000 10 in
      and_then (module_cuda_call P (Linear 10 10) 0) (\<lambda>rnn.
      module_init_call P [(''embedding'', embedding), (''rnn'', rnn)]))"

definition DistributedModel_forward ::
  "(layer, 'x, 'e, 'w) framework \<Rightarrow> (string \<times> layer) list \<Rightarrow> 'x \<Rightarrow>
   (layer, 'x, 'e, 'w, 'x) exec" where
  "DistributedModel_forward P self x =
     and_then (get_attribute P self ''embedding'') (\<lambda>embedding.
     and_then (call_module P embedding x) (\<lambda>x.
     and_then (cuda_call P x 0) (\<lambda>x.
     and_then (get_attribute P self ''rnn'') (\<lambda>rnn.
     and_then (call_module P rnn x) (\<lambda>x.
     return_value x)))))"

section \<open>A small framework to run the definitions on\<close>

text \<open>
  Tensors are lists of integers (a batch of numbers), and the state is the number of free
  memory units on the devices. Every operation allocates what it returns and raises
  \<open>OutOfMemory\<close> when the free memory does not suffice. \<open>scatter\<close> cuts the batch into
  chunks of equal size, one per device, so a batch shorter than the device list gives
  fewer chunks than devices; \<open>parallel_apply\<close> raises \<open>ShapeMismatch\<close> on lists of
  different lengths. The base-class constructor is that of \<^verbatim>\<open>torch.nn.Module\<close>: it takes
  no keyword argument, raises \<open>TypeError\<close> when it is given one, and leaves an object
  without submodules otherwise.
\<close>

datatype failure = OutOfMemory | ShapeMismatch | TypeError | AttributeError string

fun layer_fn :: "layer \<Rightarrow> int \<Rightarrow> int" where
  "layer_fn (Linear i out) v = i * v + out"
| "layer_fn (Embedding n d) v = v mod n"
| "layer_fn (DataParallel m) v = layer_fn m v"
| "layer_fn (Cuda m d) v = layer_fn m v"

fun chunks :: "nat \<Rightarrow> 'a list \<Rightarrow> 'b list \<Rightarrow> 'a list list" where
  "chunks c xs [] = []"
| "chunks c xs (d # ds) = (if xs = [] then [] else take c xs # chunks c (drop c xs) ds)"

definition allocate :: "nat \<Rightarrow> 'a \<Rightarrow> (failure, nat, 'a) prim" where
  "allocate n a w = (if w < n then (Inl OutOfMemory, w) else (Inr a, w - n))"

definition sim_framework :: "(layer, int list, failure, nat) framework" where
  "sim_framework =
     \<lparr>nn_call = (\<lambda>m x. allocate 1 (map (layer_fn m) x)),
      nn_replicate = (\<lambda>m ds. allocate (length ds) (map (Cuda m) ds)),
      nn_scatter = (\<lambda>x ds.
         let shards = chunks ((length x + length ds - 1) div length ds) x ds
         in allocate (length shards) shards),
      nn_parallel_apply = (\<lambda>ms xs w.
         if length ms \<noteq> length xs then (Inl ShapeMismatch, w)
         else allocate (length xs) (map (\<lambda>(m, x). map (layer_fn m) x) (zip ms xs)) w),
      nn_gather = (\<lambda>ys d. allocate 1 (concat ys)),
      tensor_cuda = (\<lambda>x d. allocate 1 x),
      module_cuda = (\<lambda>m d. allocate 1 (Cuda m d)),
      module_init = (\<lambda>kwargs w. if kwargs = [] then (Inr [], w) else (Inl TypeError, w)),
      attribute_error = AttributeError\<rparr>"

section \<open>Reading a trace\<close>

text \<open>The framework operation behind each recorded call.\<close>

datatype primitive =
  PCall | PReplicate | PScatter | PParallelApply | PGather | PTensorCuda | PModuleCuda | PModuleInit

fun primitive_of :: "('m, 'x) event \<Rightarrow> primitive" where
  "primitive_of (Call m x) = PCall"
| "primitive_of (Replicate m ds) = PReplicate"
| "primitive_of (Scatter x ds) = PScatter"
| "primitive_of (ParallelApply ms xs) = PParallelApply"
| "primitive_of (Gather ys d) = PGather"
| "primitive_of (TensorCuda x d) = PTensorCuda"
| "primitive_of (ModuleCuda m d) = PModuleCuda"
| "primitive_of (ModuleInit kwargs) = PModuleInit"

text \<open>The argument pairs of the \<open>parallel_apply\<close> calls of a trace.\<close>

fun parallel_apply_calls :: "('m, 'x) event list \<Rightarrow> ('m list \<times> 'x list) list" where
  "parallel_apply_calls [] = []"
| "parallel_apply_calls (ParallelApply ms xs # t) = (ms, xs) # parallel_apply_calls t"
| "parallel_apply_calls (ev # t) = parallel_apply_calls t"

text \<open>The replicas a trace hands to \<open>parallel_apply\<close>.\<close>

fun applied_replicas :: "('m, 'x) event list \<Rightarrow> 'm list" where
  "applied_replicas [] = []"
| "applied_replicas (ParallelApply ms xs # t) = ms @ applied_replicas t"
| "applied_replicas (ev # t) = applied_replicas t"

text \<open>The device lists a trace hands to the framework (to \<open>replicate\<close> and \<open>scatter\<close>).\<close>

fun device_lists :: "('m, 'x) event list \<Rightarrow> int list list" where
  "device_lists [] = []"
| "device_lists (Replicate m ds # t) = ds # device_lists t"
| "device_lists (Scatter x ds # t) = ds # device_lists t"
| "device_lists (ev # t) = device_lists t"

section \<open>Sequencing lemmas\<close>

lemma and_then_invoke_cases:
  "and_then (invoke ev p) g w =
     (case p w of
        (Inl e, w') \<Rightarrow> ([ev], Inl e, w')
      | (Inr a, w') \<Rightarrow> (ev # fst (g a w'), snd (g a w')))"
  by (simp add: and_then_def invoke_def split: prod.splits sum.splits)

lemma and_then_return_value: "and_then f return_value w = f w"
  by (simp add: and_then_def return_value_def split: prod.splits sum.splits)

lemmas framework_calls =
  call_module_def replicate_call_def scatter_call_def parallel_apply_call_def
  gather_call_def cuda_call_def module_cuda_call_def module_init_call_def

text \<open>
  The run of \<^verbatim>\<open>data_parallel\<close> on a non-empty device list, written out call by call.
\<close>

lemma data_parallel_run:
  assumes "device_ids \<noteq> []"
  shows "data_parallel P module input device_ids output_device w =
     (case nn_replicate P module device_ids w of
        (Inl e, w') \<Rightarrow> ([Replicate module device_ids], Inl e, w')
      | (Inr replicas, w1) \<Rightarrow>
     (case nn_scatter P input device_ids w1 of
        (Inl e, w') \<Rightarrow> ([Replicate module device_ids, Scatter input device_ids], Inl e, w')
      | (Inr inputs, w2) \<Rightarrow>
     (case nn_parallel_apply P (take (length inputs) replicas) inputs w2 of
        (Inl e, w') \<Rightarrow>
          ([Replicate module device_ids, Scatter input device_ids,
            ParallelApply (take (length inputs) replicas) inputs], Inl e, w')
      | (Inr outputs, w3) \<Rightarrow>
          ([Replicate module device_ids, Scatter input device_ids,
            ParallelApply (take (length inputs) replicas) inputs,
            Gather outputs (case output_device of None \<Rightarrow> device_ids ! 0 | Some d \<Rightarrow> d)],
           nn_gather P outputs (case output_device of None \<Rightarrow> device_ids ! 0 | Some d \<Rightarrow> d) w3))))"
  using assms
  by (simp add: data_parallel_def framework_calls and_then_invoke_cases invoke_def Let_def
      split: prod.splits sum.splits)

text \<open>The runs of the two \<^verbatim>\<open>forward\<close> methods, written out call by call.\<close>

lemma DataParallelModel_forward_run:
  "DataParallelModel_forward P self x w =
     (case nn_call P (block1 self) x w of
        (Inl e, w') \<Rightarrow> ([Call (block1 self) x], Inl e, w')
      | (Inr x1, w1) \<Rightarrow>
     (case nn_call P (block2 self) x1 w1 of
        (Inl e, w') \<Rightarrow> ([Call (block1 self) x, Call (block2 self) x1], Inl e, w')
      | (Inr x2, w2) \<Rightarrow>
          ([Call (block1 self) x, Call (block2 self) x1, Call (block3 self) x2],
           nn_call P (block3 self) x2 w2)))"
  by (simp add: DataParallelModel_forward_def and_then_return_value framework_calls
      and_then_invoke_cases invoke_def split: prod.splits sum.splits)

lemma and_then_get_attribute:
  "and_then (get_attribute P self name) g w =
     (case map_of self name of
        None \<Rightarrow> ([], Inl (attribute_error P name), w)
      | Some m \<Rightarrow> g m w)"
  by (simp add: and_then_def get_attribute_def split: option.splits prod.splits)

lemma DistributedModel_init_run:
  "DistributedModel_init P w =
     (case module_cuda P (Linear 10 10) 0 w of
        (Inl e, w') \<Rightarrow> ([ModuleCuda (Linear 10 10) 0], Inl e, w')
      | (Inr rnn, w1) \<Rightarrow>
          ([ModuleCuda (Linear 10 10) 0,
            ModuleInit [(''embedding'', Embedding 1000 10), (''rnn'', rnn)]],
           module_init P [(''embedding'', Embedding 1000 10), (''rnn'', rnn)] w1))"
  by (simp add: DistributedModel_init_def framework_calls and_then_invoke_cases invoke_def
      Let_def split: prod.splits sum.splits)

lemma DistributedModel_forward_run:
  "DistributedModel_forward P self x w =
     (case map_of self ''embedding'' of
        None \<Rightarrow> ([], Inl (attribute_error P ''embedding''), w)
      | Some embedding \<Rightarrow>
     (case nn_call P embedding x w of
        (Inl e, w') \<Rightarrow> ([Call embedding x], Inl e, w')
      | (Inr x1, w1) \<Rightarrow>
     (case tensor_cuda P x1 0 w1 of
        (Inl e, w') \<Rightarrow> ([Call embedding x, TensorCuda x1 0], Inl e, w')
      | (Inr x2, w2) \<Rightarrow>
     (case map_of self ''rnn'' of
        None \<Rightarrow> ([Call embedding x, TensorCuda x1 0], Inl (attribute_error P ''rnn''), w2)
      | Some rnn \<Rightarrow>
          ([Call embedding x, TensorCuda x1 0, Call rnn x2], nn_call P rnn x2 w2)))))"
  by (simp add: DistributedModel_forward_def and_then_return_value and_then_get_attribute
      framework_calls and_then_invoke_cases invoke_def
      split: prod.splits sum.splits option.splits)

section \<open>Properties\<close>

text \<open>
  C2. With an empty device list \<^verbatim>\<open>data_parallel\<close> makes one call into the framework, the
  call of the module on the input, and returns what that call returns (its value or its
  exception, and the state it leaves); none of replicate, scatter, parallel_apply and
  gather is called.
\<close>

theorem data_parallel_empty_device_list:
  "data_parallel P module input [] output_device w = ([Call module input], nn_call P module input w)"
  by (simp add: data_parallel_def call_module_def invoke_def)

text \<open>
  C1. On a non-empty device list the calls \<^verbatim>\<open>data_parallel\<close> makes are, in every run, an
  initial segment of replicate, scatter, parallel_apply, gather, in this order. When the
  first three return, all four are made: replicate on the module and the device list,
  scatter on the input and the device list, parallel_apply on the truncated replica list
  and the shards, gather on the outputs and the one output device; and what
  \<^verbatim>\<open>data_parallel\<close> returns is what that gather call returns.
\<close>

theorem data_parallel_four_primitives_in_sequence:
  assumes "device_ids \<noteq> []"
  shows "prefix (map primitive_of (fst (data_parallel P module input device_ids output_device w)))
           [PReplicate, PScatter, PParallelApply, PGather]
    \<and> (\<forall>replicas w1 inputs w2 outputs w3.
          nn_replicate P module device_ids w = (Inr replicas, w1) \<longrightarrow>
          nn_scatter P input device_ids w1 = (Inr inputs, w2) \<longrightarrow>
          nn_parallel_apply P (take (length inputs) replicas) inputs w2 = (Inr outputs, w3) \<longrightarrow>
          data_parallel P module input device_ids output_device w =
            ([Replicate module device_ids, Scatter input device_ids,
              ParallelApply (take (length inputs) replicas) inputs,
              Gather outputs (case output_device of None \<Rightarrow> device_ids ! 0 | Some d \<Rightarrow> d)],
             nn_gather P outputs (case output_device of None \<Rightarrow> device_ids ! 0 | Some d \<Rightarrow> d) w3))"
  by (simp add: data_parallel_run [OF assms] split: prod.splits sum.splits)

theorem data_parallel_four_primitives_in_sequence_witness:
  "prefix (map primitive_of (fst (data_parallel sim_framework (Linear 2 1) [1, 2, 3] [0, 1] None 7)))
     [PReplicate, PScatter, PParallelApply, PGather]
   \<and> data_parallel sim_framework (Linear 2 1) [1, 2, 3] [0, 1] None 7 =
       ([Replicate (Linear 2 1) [0, 1], Scatter [1, 2, 3] [0, 1],
         ParallelApply [Cuda (Linear 2 1) 0, Cuda (Linear 2 1) 1] [[1, 2], [3]],
         Gather [[3, 5], [7]] 0],
        Inr [3, 5, 7], 0)"
proof -
  have ne: "[0, 1 :: int] \<noteq> []" by simp
  have r: "nn_replicate sim_framework (Linear 2 1) [0, 1] 7
             = (Inr [Cuda (Linear 2 1) 0, Cuda (Linear 2 1) 1], 5)"
    by code_simp
  have s: "nn_scatter sim_framework [1, 2, 3] [0, 1] 5 = (Inr [[1, 2], [3]], 3)"
    by code_simp
  have p: "nn_parallel_apply sim_framework
             (take (length [[1, 2], [3 :: int]]) [Cuda (Linear 2 1) 0, Cuda (Linear 2 1) 1])
             [[1, 2], [3]] 3 = (Inr [[3, 5], [7]], 1)"
    by code_simp
  have g: "nn_gather sim_framework [[3, 5], [7]] 0 1 = (Inr [3, 5, 7], 0)"
    by code_simp
  from data_parallel_four_primitives_in_sequence
         [OF ne, of sim_framework "Linear 2 1" "[1, 2, 3]" None 7]
  have pre: "prefix (map primitive_of
        (fst (data_parallel sim_framework (Linear 2 1) [1, 2, 3] [0, 1] None 7)))
        [PReplicate, PScatter, PParallelApply, PGather]"
    and run: "data_parallel sim_framework (Linear 2 1) [1, 2, 3] [0, 1] None 7 =
        ([Replicate (Linear 2 1) [0, 1], Scatter [1, 2, 3] [0, 1],
          ParallelApply (take (length [[1, 2], [3 :: int]])
            [Cuda (Linear 2 1) 0, Cuda (Linear 2 1) 1]) [[1, 2], [3]],
          Gather [[3, 5], [7]] (case None of None \<Rightarrow> [0, 1] ! 0 | Some d \<Rightarrow> d)],
         nn_gather sim_framework [[3, 5], [7]]
           (case None of None \<Rightarrow> [0, 1] ! 0 | Some d \<Rightarrow> d) 1)"
    using r s p by blast+
  from run g have "data_parallel sim_framework (Linear 2 1) [1, 2, 3] [0, 1] None 7 =
       ([Replicate (Linear 2 1) [0, 1], Scatter [1, 2, 3] [0, 1],
         ParallelApply [Cuda (Linear 2 1) 0, Cuda (Linear 2 1) 1] [[1, 2], [3]],
         Gather [[3, 5], [7]] 0],
        Inr [3, 5, 7], 0)"
    by simp
  with pre show ?thesis by blast
qed

text \<open>
  C3, as the code has it. On a non-empty device list \<^verbatim>\<open>data_parallel\<close> asks replicate for
  copies of the module on the whole device list and hands to parallel_apply the first
  \<^verbatim>\<open>len(inputs)\<close> of the replicas it got, with the shards scatter returned; a replica
  beyond the number of shards is handed to no call. When scatter returns at least as
  many shards as replicate returned replicas, every replica is handed to parallel_apply.
\<close>

theorem data_parallel_applies_leading_replicas:
  assumes "device_ids \<noteq> []"
    and "nn_replicate P module device_ids w = (Inr replicas, w1)"
    and "nn_scatter P input device_ids w1 = (Inr inputs, w2)"
  shows "take 3 (fst (data_parallel P module input device_ids output_device w)) =
           [Replicate module device_ids, Scatter input device_ids,
            ParallelApply (take (length inputs) replicas) inputs]
    \<and> applied_replicas (fst (data_parallel P module input device_ids output_device w)) =
           take (length inputs) replicas
    \<and> (length replicas \<le> length inputs \<longrightarrow>
         applied_replicas (fst (data_parallel P module input device_ids output_device w)) =
           replicas)"
  using assms(2,3)
  by (simp add: data_parallel_run [OF assms(1)] split: prod.splits sum.splits)

theorem data_parallel_applies_leading_replicas_witness:
  "take 3 (fst (data_parallel sim_framework (Linear 2 1) [1, 2, 3] [0, 1] None 7)) =
     [Replicate (Linear 2 1) [0, 1], Scatter [1, 2, 3] [0, 1],
      ParallelApply [Cuda (Linear 2 1) 0, Cuda (Linear 2 1) 1] [[1, 2], [3]]]
   \<and> applied_replicas (fst (data_parallel sim_framework (Linear 2 1) [1, 2, 3] [0, 1] None 7)) =
     [Cuda (Linear 2 1) 0, Cuda (Linear 2 1) 1]"
proof -
  have ne: "[0, 1 :: int] \<noteq> []" by simp
  have r: "nn_replicate sim_framework (Linear 2 1) [0, 1] 7
             = (Inr [Cuda (Linear 2 1) 0, Cuda (Linear 2 1) 1], 5)"
    by code_simp
  have s: "nn_scatter sim_framework [1, 2, 3] [0, 1] 5 = (Inr [[1, 2], [3]], 3)"
    by code_simp
  have le: "length [Cuda (Linear 2 1) 0, Cuda (Linear 2 1) 1] \<le> length [[1, 2], [3 :: int]]"
    by simp
  from data_parallel_applies_leading_replicas [OF ne r s, of None] le
  show ?thesis by simp
qed

text \<open>
  The claim C3 as the specification words it, every replica produced by replicate is
  applied to a shard, fails on a batch shorter than the device list: replicate returns a
  replica for device 0 and one for device 1, scatter returns the single shard \<open>[5]\<close>, and
  only the replica for device 0 reaches parallel_apply.
\<close>

theorem data_parallel_replica_without_shard:
  "nn_replicate sim_framework (Linear 2 1) [0, 1] 5 =
     (Inr [Cuda (Linear 2 1) 0, Cuda (Linear 2 1) 1], 3)
   \<and> data_parallel sim_framework (Linear 2 1) [5] [0, 1] None 5 =
     ([Replicate (Linear 2 1) [0, 1], Scatter [5] [0, 1],
       ParallelApply [Cuda (Linear 2 1) 0] [[5]], Gather [[11]] 0],
      Inr [11], 0)
   \<and> applied_replicas (fst (data_parallel sim_framework (Linear 2 1) [5] [0, 1] None 5)) =
     [Cuda (Linear 2 1) 0]
   \<and> Cuda (Linear 2 1) 1 \<notin>
       set (applied_replicas (fst (data_parallel sim_framework (Linear 2 1) [5] [0, 1] None 5)))"
  by code_simp


text \<open>
  C4. \<^verbatim>\<open>data_parallel\<close> has no handler of its own. Whichever call into the framework
  raises (the module call on an empty device list; replicate, scatter, parallel_apply or
  gather otherwise), the run ends at that call, with the exception it raised and the
  state it left: no later call is made and the exception is not replaced.
\<close>

theorem data_parallel_propagates_errors:
  "(nn_call P module input w = (Inl e, w') \<longrightarrow>
      data_parallel P module input [] output_device w = ([Call module input], Inl e, w'))
   \<and> (device_ids \<noteq> [] \<longrightarrow>
      nn_replicate P module device_ids w = (Inl e, w') \<longrightarrow>
      data_parallel P module input device_ids output_device w =
        ([Replicate module device_ids], Inl e, w'))
   \<and> (device_ids \<noteq> [] \<longrightarrow>
      nn_replicate P module device_ids w = (Inr replicas, w1) \<longrightarrow>
      nn_scatter P input device_ids w1 = (Inl e, w') \<longrightarrow>
      data_parallel P module input device_ids output_device w =
        ([Replicate module device_ids, Scatter input device_ids], Inl e, w'))
   \<and> (device_ids \<noteq> [] \<longrightarrow>
      nn_replicate P module device_ids w = (Inr replicas, w1) \<longrightarrow>
      nn_scatter P input device_ids w1 = (Inr inputs, w2) \<longrightarrow>
      nn_parallel_apply P (take (length inputs) replicas) inputs w2 = (Inl e, w') \<longrightarrow>
      data_parallel P module input device_ids output_device w =
        ([Replicate module device_ids, Scatter input device_ids,
          ParallelApply (take (length inputs) replicas) inputs], Inl e, w'))
   \<and> (device_ids \<noteq> [] \<longrightarrow>
      nn_replicate P module device_ids w = (Inr replicas, w1) \<longrightarrow>
      nn_scatter P input device_ids w1 = (Inr inputs, w2) \<longrightarrow>
      nn_parallel_apply P (take (length inputs) replicas) inputs w2 = (Inr outputs, w3) \<longrightarrow>
      nn_gather P outputs (case output_device of None \<Rightarrow> device_ids ! 0 | Some d \<Rightarrow> d) w3
        = (Inl e, w') \<longrightarrow>
      data_parallel P module input device_ids output_device w =
        ([Replicate module device_ids, Scatter input device_ids,
          ParallelApply (take (length inputs) replicas) inputs,
          Gather outputs (case output_device of None \<Rightarrow> device_ids ! 0 | Some d \<Rightarrow> d)],
         Inl e, w'))"
proof (cases "device_ids = []")
  case True
  then show ?thesis
    by (simp add: data_parallel_def call_module_def invoke_def)
next
  case False
  have "nn_call P module input w = (Inl e, w') \<longrightarrow>
      data_parallel P module input [] output_device w = ([Call module input], Inl e, w')"
    by (simp add: data_parallel_def call_module_def invoke_def)
  then show ?thesis
    by (simp add: data_parallel_run [OF False])
qed

theorem data_parallel_propagates_errors_witness:
  "data_parallel sim_framework (Linear 2 1) [1, 2, 3] [] None 0 =
     ([Call (Linear 2 1) [1, 2, 3]], Inl OutOfMemory, 0)
   \<and> data_parallel sim_framework (Linear 2 1) [1, 2, 3] [0, 1] None 1 =
     ([Replicate (Linear 2 1) [0, 1]], Inl OutOfMemory, 1)
   \<and> data_parallel sim_framework (Linear 2 1) [1, 2, 3] [0, 1] None 3 =
     ([Replicate (Linear 2 1) [0, 1], Scatter [1, 2, 3] [0, 1]], Inl OutOfMemory, 1)
   \<and> data_parallel sim_framework (Linear 2 1) [1, 2, 3] [0, 1] None 5 =
     ([Replicate (Linear 2 1) [0, 1], Scatter [1, 2, 3] [0, 1],
       ParallelApply [Cuda (Linear 2 1) 0, Cuda (Linear 2 1) 1] [[1, 2], [3]]],
      Inl OutOfMemory, 1)
   \<and> data_parallel sim_framework (Linear 2 1) [1, 2, 3] [0, 1] None 6 =
     ([Replicate (Linear 2 1) [0, 1], Scatter [1, 2, 3] [0, 1],
       ParallelApply [Cuda (Linear 2 1) 0, Cuda (Linear 2 1) 1] [[1, 2], [3]],
       Gather [[3, 5], [7]] 0],
      Inl OutOfMemory, 0)"
proof -
  have ne: "[0, 1 :: int] \<noteq> []" by simp
  have c0: "nn_call sim_framework (Linear 2 1) [1, 2, 3] 0 = (Inl OutOfMemory, 0)"
    by code_simp
  have r1: "nn_replicate sim_framework (Linear 2 1) [0, 1] 1 = (Inl OutOfMemory, 1)"
    by code_simp
  have r3: "nn_replicate sim_framework (Linear 2 1) [0, 1] 3
              = (Inr [Cuda (Linear 2 1) 0, Cuda (Linear 2 1) 1], 1)"
    by code_simp
  have s3: "nn_scatter sim_framework [1, 2, 3] [0, 1] 1 = (Inl OutOfMemory, 1)"
    by code_simp
  have r5: "nn_replicate sim_framework (Linear 2 1) [0, 1] 5
              = (Inr [Cuda (Linear 2 1) 0, Cuda (Linear 2 1) 1], 3)"
    by code_simp
  have s5: "nn_scatter sim_framework [1, 2, 3] [0, 1] 3 = (Inr [[1, 2], [3]], 1)"
    by code_simp
  have p5: "nn_parallel_apply sim_framework
              (take (length [[1, 2], [3 :: int]]) [Cuda (Linear 2 1) 0, Cuda (Linear 2 1) 1])
              [[1, 2], [3]] 1 = (Inl OutOfMemory, 1)"
    by code_simp
  have r6: "nn_replicate sim_framework (Linear 2 1) [0, 1] 6
              = (Inr [Cuda (Linear 2 1) 0, Cuda (Linear 2 1) 1], 4)"
    by code_simp
  have s6: "nn_scatter sim_framework [1, 2, 3] [0, 1] 4 = (Inr [[1, 2], [3]], 2)"
    by code_simp
  have p6: "nn_parallel_apply sim_framework
              (take (length [[1, 2], [3 :: int]]) [Cuda (Linear 2 1) 0, Cuda (Linear 2 1) 1])
              [[1, 2], [3]] 2 = (Inr [[3, 5], [7]], 0)"
    by code_simp
  have g6: "nn_gather sim_framework [[3, 5], [7]]
              (case None of None \<Rightarrow> [0, 1] ! 0 | Some d \<Rightarrow> d) 0 = (Inl OutOfMemory, 0)"
    by code_simp
  have a: "data_parallel sim_framework (Linear 2 1) [1, 2, 3] [] None 0 =
     ([Call (Linear 2 1) [1, 2, 3]], Inl OutOfMemory, 0)"
    using data_parallel_propagates_errors
      [of sim_framework "Linear 2 1" "[1, 2, 3]" 0 OutOfMemory 0 None] c0
    by blast
  have b: "data_parallel sim_framework (Linear 2 1) [1, 2, 3] [0, 1] None 1 =
     ([Replicate (Linear 2 1) [0, 1]], Inl OutOfMemory, 1)"
    using data_parallel_propagates_errors
      [of sim_framework "Linear 2 1" "[1, 2, 3]" 1 OutOfMemory 1 None "[0, 1]"] ne r1
    by blast
  have c: "data_parallel sim_framework (Linear 2 1) [1, 2, 3] [0, 1] None 3 =
     ([Replicate (Linear 2 1) [0, 1], Scatter [1, 2, 3] [0, 1]], Inl OutOfMemory, 1)"
    using data_parallel_propagates_errors
      [of sim_framework "Linear 2 1" "[1, 2, 3]" 3 OutOfMemory 1 None "[0, 1]"] ne r3 s3
    by blast
  have d: "data_parallel sim_framework (Linear 2 1) [1, 2, 3] [0, 1] None 5 =
     ([Replicate (Linear 2 1) [0, 1], Scatter [1, 2, 3] [0, 1],
       ParallelApply (take (length [[1, 2], [3 :: int]])
         [Cuda (Linear 2 1) 0, Cuda (Linear 2 1) 1]) [[1, 2], [3]]],
      Inl OutOfMemory, 1)"
    using data_parallel_propagates_errors
      [of sim_framework "Linear 2 1" "[1, 2, 3]" 5 OutOfMemory 1 None "[0, 1]"] ne r5 s5 p5
    by blast
  have e: "data_parallel sim_framework (Linear 2 1) [1, 2, 3] [0, 1] None 6 =
     ([Replicate (Linear 2 1) [0, 1], Scatter [1, 2, 3] [0, 1],
       ParallelApply (take (length [[1, 2], [3 :: int]])
         [Cuda (Linear 2 1) 0, Cuda (Linear 2 1) 1]) [[1, 2], [3]],
       Gather [[3, 5], [7]] (case None of None \<Rightarrow> [0, 1] ! 0 | Some d \<Rightarrow> d)],
      Inl OutOfMemory, 0)"
    using data_parallel_propagates_errors
      [of sim_framework "Linear 2 1" "[1, 2, 3]" 6 OutOfMemory 0 None "[0, 1]"] ne r6 s6 p6 g6
    by blast
  from a b c d e show ?thesis by simp
qed


text \<open>
  C6. Of the three blocks \<^verbatim>\<open>DataParallelModel.__init__\<close> builds, \<^verbatim>\<open>block2\<close> is
  \<^verbatim>\<open>nn.DataParallel\<close> around a linear layer, and \<^verbatim>\<open>block1\<close> and \<^verbatim>\<open>block3\<close> are the
  linear layers themselves. \<^verbatim>\<open>forward\<close> calls \<^verbatim>\<open>block1\<close> on the input, \<^verbatim>\<open>block2\<close> on
  what \<^verbatim>\<open>block1\<close> returned and \<^verbatim>\<open>block3\<close> on what \<^verbatim>\<open>block2\<close> returned, and returns
  what \<^verbatim>\<open>block3\<close> returns.
\<close>

theorem DataParallelModel_wraps_block2_and_composes:
  "block1 DataParallelModel_init = Linear 10 20
   \<and> block2 DataParallelModel_init = DataParallel (Linear 20 20)
   \<and> block3 DataParallelModel_init = Linear 20 20
   \<and> map is_data_parallel
        [block1 DataParallelModel_init, block2 DataParallelModel_init,
         block3 DataParallelModel_init] = [False, True, False]
   \<and> is_linear (block1 DataParallelModel_init) \<and> is_linear (block3 DataParallelModel_init)
   \<and> (\<forall>x1 w1 x2 w2.
         nn_call P (block1 DataParallelModel_init) x w = (Inr x1, w1) \<longrightarrow>
         nn_call P (block2 DataParallelModel_init) x1 w1 = (Inr x2, w2) \<longrightarrow>
         DataParallelModel_forward P DataParallelModel_init x w =
           ([Call (block1 DataParallelModel_init) x, Call (block2 DataParallelModel_init) x1,
             Call (block3 DataParallelModel_init) x2],
            nn_call P (block3 DataParallelModel_init) x2 w2))"
proof -
  have blocks: "block1 DataParallelModel_init = Linear 10 20"
    "block2 DataParallelModel_init = DataParallel (Linear 20 20)"
    "block3 DataParallelModel_init = Linear 20 20"
    by (simp_all add: DataParallelModel_init_def)
  have "\<forall>x1 w1 x2 w2.
         nn_call P (block1 DataParallelModel_init) x w = (Inr x1, w1) \<longrightarrow>
         nn_call P (block2 DataParallelModel_init) x1 w1 = (Inr x2, w2) \<longrightarrow>
         DataParallelModel_forward P DataParallelModel_init x w =
           ([Call (block1 DataParallelModel_init) x, Call (block2 DataParallelModel_init) x1,
             Call (block3 DataParallelModel_init) x2],
            nn_call P (block3 DataParallelModel_init) x2 w2)"
    by (simp add: DataParallelModel_forward_run)
  then show ?thesis
    by (simp add: blocks)
qed

theorem DataParallelModel_wraps_block2_and_composes_witness:
  "DataParallelModel_forward sim_framework DataParallelModel_init [1, 2] 3 =
     ([Call (Linear 10 20) [1, 2], Call (DataParallel (Linear 20 20)) [30, 40],
       Call (Linear 20 20) [620, 820]],
      Inr [12420, 16420], 0)"
proof -
  note inst = DataParallelModel_wraps_block2_and_composes [of sim_framework "[1, 2]" 3]
  have b: "block1 DataParallelModel_init = Linear 10 20"
    "block2 DataParallelModel_init = DataParallel (Linear 20 20)"
    "block3 DataParallelModel_init = Linear 20 20"
    using inst by blast+
  have c1: "nn_call sim_framework (block1 DataParallelModel_init) [1, 2] 3 = (Inr [30, 40], 2)"
    unfolding b by code_simp
  have c2: "nn_call sim_framework (block2 DataParallelModel_init) [30, 40] 2 = (Inr [620, 820], 1)"
    unfolding b by code_simp
  have c3: "nn_call sim_framework (block3 DataParallelModel_init) [620, 820] 1
              = (Inr [12420, 16420], 0)"
    unfolding b by code_simp
  from inst c1 c2
  have "DataParallelModel_forward sim_framework DataParallelModel_init [1, 2] 3 =
           ([Call (block1 DataParallelModel_init) [1, 2],
             Call (block2 DataParallelModel_init) [30, 40],
             Call (block3 DataParallelModel_init) [620, 820]],
            nn_call sim_framework (block3 DataParallelModel_init) [620, 820] 1)"
    by blast
  then show ?thesis
    unfolding c3 unfolding b .
qed

text \<open>
  C7. The forward pass needs an object with the submodules \<open>embedding\<close> and \<open>rnn\<close>: on
  such an object \<^verbatim>\<open>forward\<close> calls the embedding on the input, moves what it returned to
  GPU 0 and calls the rnn layer on the moved tensor, in this order. The constructor does
  not build that object. It moves the new linear layer to GPU 0 and hands both layers
  to \<^verbatim>\<open>nn.Module.__init__\<close> by keyword; that constructor takes no keyword, so the
  construction ends in \<open>TypeError\<close> and no forward pass runs. Nothing in the class assigns
  \<^verbatim>\<open>self.embedding\<close> or \<^verbatim>\<open>self.rnn\<close>: on the object the base-class constructor leaves
  without keywords, \<^verbatim>\<open>forward\<close> raises at its first statement.
\<close>

theorem DistributedModel_constructor_raises:
  "DistributedModel_init sim_framework 3 =
     ([ModuleCuda (Linear 10 10) 0,
       ModuleInit [(''embedding'', Embedding 1000 10), (''rnn'', Cuda (Linear 10 10) 0)]],
      Inl TypeError, 2)
   \<and> DistributedModel_forward sim_framework [] [1, 2] 3 =
     ([], Inl (AttributeError ''embedding''), 3)
   \<and> DistributedModel_forward sim_framework
       [(''embedding'', Embedding 1000 10), (''rnn'', Cuda (Linear 10 10) 0)] [1, 2] 3 =
     ([Call (Embedding 1000 10) [1, 2], TensorCuda [1, 2] 0,
       Call (Cuda (Linear 10 10) 0) [1, 2]],
      Inr [20, 30], 0)"
proof -
  have c: "module_cuda sim_framework (Linear 10 10) 0 3 = (Inr (Cuda (Linear 10 10) 0), 2)"
    by code_simp
  have i: "module_init sim_framework
             [(''embedding'', Embedding 1000 10), (''rnn'', Cuda (Linear 10 10) 0)] 2
           = (Inl TypeError, 2)"
    by code_simp
  have a: "attribute_error sim_framework ''embedding'' = AttributeError ''embedding''"
    by (simp add: sim_framework_def)
  have e: "nn_call sim_framework (Embedding 1000 10) [1, 2] 3 = (Inr [1, 2], 2)"
    by code_simp
  have t: "tensor_cuda sim_framework [1, 2] 0 2 = (Inr [1, 2], 1)"
    by code_simp
  have r: "nn_call sim_framework (Cuda (Linear 10 10) 0) [1, 2] 1 = (Inr [20, 30], 0)"
    by code_simp
  have r': "nn_call sim_framework (Cuda (Linear 10 10) 0) [1, 2] (Suc 0) = (Inr [20, 30], 0)"
    using r by simp
  show ?thesis
    by (simp add: DistributedModel_init_run DistributedModel_forward_run c i a e t r')
qed

text \<open>
  C8. On a non-empty device list the first call of \<^verbatim>\<open>data_parallel\<close> is replicate on the
  module and the caller's device list, and when replicate returns, the second call is
  scatter on the input and the same device list. Every device list the run hands to the
  framework is the caller's list, as it was given.
\<close>

theorem data_parallel_passes_device_list_through:
  assumes "device_ids \<noteq> []"
  shows "take 1 (fst (data_parallel P module input device_ids output_device w)) =
           [Replicate module device_ids]
    \<and> set (device_lists (fst (data_parallel P module input device_ids output_device w)))
         = {device_ids}
    \<and> (\<forall>replicas w1.
          nn_replicate P module device_ids w = (Inr replicas, w1) \<longrightarrow>
          take 2 (fst (data_parallel P module input device_ids output_device w)) =
            [Replicate module device_ids, Scatter input device_ids]
          \<and> device_lists (fst (data_parallel P module input device_ids output_device w)) =
            [device_ids, device_ids])"
  by (simp add: data_parallel_run [OF assms] split: prod.splits sum.splits)

theorem data_parallel_passes_device_list_through_witness:
  "take 2 (fst (data_parallel sim_framework (Linear 2 1) [1, 2, 3] [0, 1] None 7)) =
     [Replicate (Linear 2 1) [0, 1], Scatter [1, 2, 3] [0, 1]]
   \<and> device_lists (fst (data_parallel sim_framework (Linear 2 1) [1, 2, 3] [0, 1] None 7)) =
     [[0, 1], [0, 1]]"
proof -
  have ne: "[0, 1 :: int] \<noteq> []" by simp
  have r: "nn_replicate sim_framework (Linear 2 1) [0, 1] 7
             = (Inr [Cuda (Linear 2 1) 0, Cuda (Linear 2 1) 1], 5)"
    by code_simp
  from data_parallel_passes_device_list_through
         [OF ne, of sim_framework "Linear 2 1" "[1, 2, 3]" None 7] r
  show ?thesis by blast
qed

text \<open>
  C9. On a non-empty device list and with no \<^verbatim>\<open>output_device\<close> given, the gather call of
  \<^verbatim>\<open>data_parallel\<close> names the first device of the list, and the result is that of this
  gather call.
\<close>

theorem data_parallel_default_output_device:
  assumes "device_ids \<noteq> []"
    and "nn_replicate P module device_ids w = (Inr replicas, w1)"
    and "nn_scatter P input device_ids w1 = (Inr inputs, w2)"
    and "nn_parallel_apply P (take (length inputs) replicas) inputs w2 = (Inr outputs, w3)"
  shows "last (fst (data_parallel P module input device_ids None w)) =
           Gather outputs (hd device_ids)
    \<and> snd (data_parallel P module input device_ids None w) =
           nn_gather P outputs (hd device_ids) w3"
  using assms(2,3,4)
  by (simp add: data_parallel_run [OF assms(1)] hd_conv_nth [OF assms(1)])

theorem data_parallel_default_output_device_witness:
  "last (fst (data_parallel sim_framework (Linear 2 1) [1, 2, 3] [4, 9] None 7)) =
     Gather [[3, 5], [7]] 4
   \<and> snd (data_parallel sim_framework (Linear 2 1) [1, 2, 3] [4, 9] None 7) =
     (Inr [3, 5, 7], 0)"
proof -
  have ne: "[4, 9 :: int] \<noteq> []" by simp
  have r: "nn_replicate sim_framework (Linear 2 1) [4, 9] 7
             = (Inr [Cuda (Linear 2 1) 4, Cuda (Linear 2 1) 9], 5)"
    by code_simp
  have s: "nn_scatter sim_framework [1, 2, 3] [4, 9] 5 = (Inr [[1, 2], [3]], 3)"
    by code_simp
  have p: "nn_parallel_apply sim_framework
             (take (length [[1, 2], [3 :: int]]) [Cuda (Linear 2 1) 4, Cuda (Linear 2 1) 9])
             [[1, 2], [3]] 3 = (Inr [[3, 5], [7]], 1)"
    by code_simp
  have g: "nn_gather sim_framework [[3, 5], [7]] (hd [4, 9]) 1 = (Inr [3, 5, 7], 0)"
    by code_simp
  from data_parallel_default_output_device [OF ne r s p] g
  show ?thesis by simp
qed

text \<open>
  C10. Before it calls parallel_apply, \<^verbatim>\<open>data_parallel\<close> cuts the replica list down to
  the number of shards scatter returned. With one replica per device from replicate and
  at most one shard per device from scatter, the two lists parallel_apply receives have
  the same length, also when there are fewer shards than devices.
\<close>

theorem data_parallel_truncates_replicas:
  assumes "device_ids \<noteq> []"
    and "nn_replicate P module device_ids w = (Inr replicas, w1)"
    and "nn_scatter P input device_ids w1 = (Inr inputs, w2)"
    and "length replicas = length device_ids"
    and "length inputs \<le> length device_ids"
  shows "parallel_apply_calls (fst (data_parallel P module input device_ids output_device w)) =
           [(take (length inputs) replicas, inputs)]
    \<and> length (take (length inputs) replicas) = length inputs
    \<and> list_all (\<lambda>(ms, xs). length ms = length xs)
         (parallel_apply_calls (fst (data_parallel P module input device_ids output_device w)))"
  using assms(2,3,4,5)
  by (simp add: data_parallel_run [OF assms(1)] split: prod.splits sum.splits)

theorem data_parallel_truncates_replicas_witness:
  "parallel_apply_calls (fst (data_parallel sim_framework (Linear 2 1) [5] [0, 1] None 5)) =
     [([Cuda (Linear 2 1) 0], [[5]])]
   \<and> length [Cuda (Linear 2 1) 0] = length [[5 :: int]]"
proof -
  have ne: "[0, 1 :: int] \<noteq> []" by simp
  have r: "nn_replicate sim_framework (Linear 2 1) [0, 1] 5
             = (Inr [Cuda (Linear 2 1) 0, Cuda (Linear 2 1) 1], 3)"
    by code_simp
  have s: "nn_scatter sim_framework [5] [0, 1] 3 = (Inr [[5]], 2)"
    by code_simp
  have l: "length [Cuda (Linear 2 1) 0, Cuda (Linear 2 1) 1] = length [0, 1 :: int]"
    by simp
  have m: "length [[5 :: int]] \<le> length [0, 1 :: int]"
    by simp
  from data_parallel_truncates_replicas [OF ne r s l m, of None]
  show ?thesis by simp
qed

end
